theory Spec2Isabelle
  imports Complex_Main
begin

section \<open>Data model (src/lib/types.ts)\<close>

text \<open>
  A JavaScript \<open>Date\<close>, and an ISO timestamp string produced by \<open>toISOString()\<close>, is
  modelled by the instant it denotes: the integer number of milliseconds since the epoch
  that \<open>getTime()\<close> returns. Segment offsets and durations are whole seconds.
\<close>

type_synonym Date = int

text \<open>
  Identifiers are template strings over a number (\<open>`block-${startTime.getTime()}`\<close>,
  \<open>`voice-${Date.now()}-${index}`\<close>, ...). Each template is a constructor applied to the
  numbers that are substituted into it.
\<close>

datatype ident =
    BlockId Date
  | FallbackBlockId Date
  | VoiceId Date nat
  | SessionId Date
  | LiteralId string

datatype Priority = p_low | p_medium | p_high

datatype MusicStyle = ambient | focus | energetic | upbeat | calm | silent

datatype VoiceFrequency = vf_none | vf_minimal | vf_moderate | vf_active

datatype InterruptionLevel = il_none | il_low | il_medium | il_high

text \<open>The \<open>{timing, duration}\<close> facet that voice and music segments share.\<close>

record Segment =
  timing :: int
  duration :: int

record VoiceSegment = Segment +
  voice_id :: ident
  content :: string
  audioUrl :: "string option"
  priority :: Priority

record MusicSegment = Segment +
  spotifyUri :: "string option"
  playlistId :: "string option"
  volume :: real
  fadeIn :: "int option"
  fadeOut :: "int option"

record BlockStrategy =
  musicStyle :: MusicStyle
  musicVolume :: real
  voiceFrequency :: VoiceFrequency
  interruptionLevel :: InterruptionLevel
  reasoning :: string

record AudioBlock =
  block_id :: ident
  startTime :: Date
  endTime :: Date
  strategy :: BlockStrategy
  voiceContent :: "VoiceSegment list"
  musicContent :: "MusicSegment list"
  generatedAt :: Date

section \<open>Live playback locator (src/lib/radioStation.ts)\<close>

datatype SegmentType = music | voice

datatype AnySegment = MusicSeg MusicSegment | VoiceSeg VoiceSegment

text \<open>The entries of the local array \<open>allSegments\<close>.\<close>

record SegmentItem =
  item_type :: SegmentType
  item_segment :: AnySegment
  item_startTime :: int
  item_endTime :: int

record PlaybackPosition =
  currentSegment :: "AnySegment option"
  segmentType :: "SegmentType option"
  positionInSegment :: int
  totalElapsed :: int

definition musicItem :: "MusicSegment \<Rightarrow> SegmentItem" where
  "musicItem m = \<lparr>item_type = music, item_segment = MusicSeg m,
     item_startTime = timing m, item_endTime = timing m + duration m\<rparr>"

definition voiceItem :: "VoiceSegment \<Rightarrow> SegmentItem" where
  "voiceItem v = \<lparr>item_type = voice, item_segment = VoiceSeg v,
     item_startTime = timing v, item_endTime = timing v + duration v\<rparr>"

text \<open>
  \<open>Math.floor((now.getTime() - blockStart.getTime()) / 1000)\<close>; \<open>div\<close> on \<open>int\<close>
  rounds towards minus infinity, as \<open>Math.floor\<close> does.
\<close>

definition elapsedSeconds :: "AudioBlock \<Rightarrow> Date \<Rightarrow> int" where
  "elapsedSeconds block now = (now - startTime block) div 1000"

definition blockDuration :: "AudioBlock \<Rightarrow> int" where
  "blockDuration block = (endTime block - startTime block) div 1000"

text \<open>
  The music segments are pushed first, then the voice segments, and the array is sorted
  by start time. \<open>Array.prototype.sort\<close> is stable, and so is \<open>sort_key\<close>.
\<close>

definition allSegments :: "AudioBlock \<Rightarrow> SegmentItem list" where
  "allSegments block =
     sort_key item_startTime
       (map musicItem (musicContent block) @ map voiceItem (voiceContent block))"

definition isPlaying :: "int \<Rightarrow> SegmentItem \<Rightarrow> bool" where
  "isPlaying elapsed item =
     (elapsed \<ge> item_startTime item \<and> elapsed < item_endTime item)"

text \<open>The wall clock that the source samples with \<open>new Date()\<close> is the argument \<open>now\<close>.\<close>

definition getCurrentPlaybackPosition :: "AudioBlock \<Rightarrow> Date \<Rightarrow> PlaybackPosition" where
  "getCurrentPlaybackPosition block now =
     (let elapsed = elapsedSeconds block now in
      if elapsed < 0 then
        \<lparr>currentSegment = None, segmentType = None, positionInSegment = 0, totalElapsed = 0\<rparr>
      else if elapsed \<ge> blockDuration block then
        \<lparr>currentSegment = None, segmentType = None, positionInSegment = 0,
         totalElapsed = elapsed\<rparr>
      else
        (case find (isPlaying elapsed) (allSegments block) of
           Some item \<Rightarrow>
             \<lparr>currentSegment = Some (item_segment item), segmentType = Some (item_type item),
              positionInSegment = elapsed - item_startTime item, totalElapsed = elapsed\<rparr>
         | None \<Rightarrow>
             \<lparr>currentSegment = None, segmentType = None, positionInSegment = 0,
              totalElapsed = elapsed\<rparr>))"

text \<open>The result the spec calls NotLive: no segment, no segment type.\<close>

definition notLive :: "PlaybackPosition \<Rightarrow> bool" where
  "notLive p = (currentSegment p = None \<and> segmentType p = None)"

section \<open>Dates in local time\<close>

text \<open>
  The \<open>Date\<close> methods of the source read and write local time. The time zone of the
  host is a parameter: \<open>utcOffset z t\<close> is the zone's offset in milliseconds at the
  instant \<open>t\<close> (ECMAScript's \<open>LocalTZA(t, true)\<close>), and \<open>localOffset z lt\<close> is the
  offset that is used to read the local time value \<open>lt\<close> (\<open>LocalTZA(lt, false)\<close>): for
  a local time that a transition skips, or that occurs twice, it is the offset before
  the transition.
\<close>

record Zone =
  utcOffset :: "Date \<Rightarrow> int"
  localOffset :: "int \<Rightarrow> int"

definition LocalTime :: "Zone \<Rightarrow> Date \<Rightarrow> int" where
  "LocalTime z t = t + utcOffset z t"

definition UTC :: "Zone \<Rightarrow> int \<Rightarrow> Date" where
  "UTC z lt = lt - localOffset z lt"

definition getMinutes :: "Zone \<Rightarrow> Date \<Rightarrow> int" where
  "getMinutes z d = (LocalTime z d div 60000) mod 60"

definition getHours :: "Zone \<Rightarrow> Date \<Rightarrow> int" where
  "getHours z d = (LocalTime z d div 3600000) mod 24"

text \<open>
  \<open>d.setMinutes(m)\<close> replaces the minute of the local time and keeps the hour, the
  seconds and the milliseconds; a minute outside 0..59 carries into the hours. The new
  local time is then read back as an instant.
\<close>

definition setMinutes :: "Zone \<Rightarrow> Date \<Rightarrow> int \<Rightarrow> Date" where
  "setMinutes z d m = UTC z (LocalTime z d + (m - getMinutes z d) * 60000)"

text \<open>\<open>d.setMinutes(m, s, ms)\<close> also replaces seconds and milliseconds.\<close>

definition setMinutes3 :: "Zone \<Rightarrow> Date \<Rightarrow> int \<Rightarrow> int \<Rightarrow> int \<Rightarrow> Date" where
  "setMinutes3 z d m s ms =
     UTC z (LocalTime z d - LocalTime z d mod 3600000 + m * 60000 + s * 1000 + ms)"

definition setHours :: "Zone \<Rightarrow> Date \<Rightarrow> int \<Rightarrow> Date" where
  "setHours z d h = UTC z (LocalTime z d + (h - getHours z d) * 3600000)"

text \<open>A zone without transitions.\<close>

definition fixedZone :: "int \<Rightarrow> Zone" where
  "fixedZone c = \<lparr>utcOffset = (\<lambda>t. c), localOffset = (\<lambda>lt. c)\<rparr>"

text \<open>
  America/New_York during 2026: UTC-5 until 2026-03-08 07:00 UTC, when local 02:00
  becomes 03:00, then UTC-4 until 2026-11-01 06:00 UTC, when local 02:00 becomes 01:00,
  then UTC-5. The skipped local hour 02:00-03:00 of March and the first reading of the
  repeated hour 01:00-02:00 of November use the offset before their transition.
\<close>

definition springForward :: Date where
  "springForward = 1772953200000"

definition fallBack :: Date where
  "fallBack = 1793512800000"

definition newYork2026 :: Zone where
  "newYork2026 =
     \<lparr>utcOffset = (\<lambda>t. if t < springForward then - 18000000
                       else if t < fallBack then - 14400000 else - 18000000),
      localOffset = (\<lambda>lt. if lt < springForward - 14400000 then - 18000000
                          else if lt < fallBack - 14400000 then - 14400000
                          else - 18000000)\<rparr>"

section \<open>Collaborators\<close>

text \<open>What an awaited call can throw.\<close>

datatype error = UpstreamError | SyntaxError | TypeError

record SpotifyTrack =
  uri :: string
  duration_ms :: int

text \<open>
  \<open>ev_start\<close> is \<open>new Date(event.start)\<close>: \<open>None\<close> is the invalid date that an empty or
  malformed string gives, which compares false with every date.
\<close>

record CalendarEvent =
  ev_id :: string
  summary :: string
  ev_start :: "Date option"
  attendees :: "string list"

text \<open>
  The JSON that the content-generation model returns, after \<open>JSON.parse\<close>. A field that
  is absent is \<open>None\<close>; \<open>r_voiceContent\<close> is \<open>None\<close> also when the field is not an array.
  An element of the array is \<open>None\<close> when it is \<open>null\<close>, the one JSON value whose
  properties cannot be read; any other element is the record of its four properties.
\<close>

record RawVoice =
  rv_timing :: int
  rv_content :: string
  rv_priority :: Priority
  rv_duration :: int

record AiResult =
  r_strategy :: "BlockStrategy option"
  r_musicRecommendation :: "string option"
  r_voiceContent :: "RawVoice option list option"

text \<open>
  The outcome of \<open>openai.chat.completions.create\<close>: the request fails (or times out), or
  its message content is not JSON, or it parses.
\<close>

datatype Completion = RequestFails | NotJson | Json AiResult

text \<open>
  The answers of the outside world during the generation of one block:
  \<open>getUpcomingEvents\<close>, \<open>buildMusicProfile\<close>, the chat completion, \<open>Date.now()\<close> at each
  voice segment, \<open>generateSpeech\<close> for a text (base64 of the audio), \<open>getTracksForMood\<close>
  and \<open>getPersonalizedRecommendations\<close> for a mood, and \<open>new Date()\<close> when the block is
  assembled. \<open>getTopHeadlines\<close> catches its own errors and its result only feeds the
  prompt, so it has no field.
\<close>

record World =
  calendar :: "error + CalendarEvent list"
  musicProfile :: "error + unit"
  completion :: Completion
  dateNow :: "nat \<Rightarrow> Date"
  speech :: "string \<Rightarrow> error + string"
  moodTracks :: "MusicStyle \<Rightarrow> error + SpotifyTrack list"
  personalized :: "MusicStyle \<Rightarrow> error + SpotifyTrack list"
  clock :: Date

section \<open>Content strategy resolver (analyzeBlock, src/unnamed/part_004)\<close>

record Analysis =
  a_strategy :: "BlockStrategy option"
  a_voiceContent :: "VoiceSegment list"
  a_musicRecommendation :: string

definition addId :: "(nat \<Rightarrow> Date) \<Rightarrow> nat \<times> RawVoice \<Rightarrow> VoiceSegment" where
  "addId now = (\<lambda>(index, segment).
     \<lparr>timing = rv_timing segment, duration = rv_duration segment,
      voice_id = VoiceId (now index) index, content = rv_content segment,
      audioUrl = None, priority = rv_priority segment\<rparr>)"

text \<open>
  The events, news, preferences, time of day and music profile only build the prompt; the
  request's outcome is the argument. There is no \<open>try\<close> in the function: a failed
  request, \<open>JSON.parse\<close> on malformed content, \<open>result.voiceContent.map\<close> on a missing
  array and \<open>segment.timing\<close> on a \<open>null\<close> element of the array all throw to the
  caller. \<open>those\<close> gives the elements when none of them is \<open>None\<close>.
\<close>

definition analyzeBlock :: "Completion \<Rightarrow> (nat \<Rightarrow> Date) \<Rightarrow> error + Analysis" where
  "analyzeBlock response now =
     (case response of
        RequestFails \<Rightarrow> Inl UpstreamError
      | NotJson \<Rightarrow> Inl SyntaxError
      | Json result \<Rightarrow>
          (case r_voiceContent result of
             None \<Rightarrow> Inl TypeError
           | Some elements \<Rightarrow>
               (case those elements of
                  None \<Rightarrow> Inl TypeError
                | Some segments \<Rightarrow>
                    Inr \<lparr>a_strategy = r_strategy result,
                         a_voiceContent = map (addId now) (enumerate 0 segments),
                         a_musicRecommendation =
                           (case r_musicRecommendation result of
                              None \<Rightarrow> ''Music matching your mood''
                            | Some s \<Rightarrow>
                                if s = [] then ''Music matching your mood'' else s)\<rparr>)))"

text \<open>A failed \<open>generateSpeech\<close> is caught per segment, which is then returned as it is.\<close>

definition generateMultipleSpeechSegments ::
  "(string \<Rightarrow> error + string) \<Rightarrow> VoiceSegment list \<Rightarrow> VoiceSegment list" where
  "generateMultipleSpeechSegments tts segments =
     map (\<lambda>segment.
            case tts (content segment) of
              Inr base64Audio \<Rightarrow>
                segment\<lparr>audioUrl := Some (''data:audio/mp3;base64,'' @ base64Audio)\<rparr>
            | Inl e \<Rightarrow> segment)
         segments"

section \<open>Block scheduler (blockScheduler, in src/lib/musicSelector.ts)\<close>

definition BLOCK_DURATION_MINUTES :: int where
  "BLOCK_DURATION_MINUTES = 30"

definition PRELOAD_HOURS :: int where
  "PRELOAD_HOURS = 12"

definition BLOCKS_TO_GENERATE :: int where
  "BLOCKS_TO_GENERATE = (PRELOAD_HOURS * 60) div BLOCK_DURATION_MINUTES"

text \<open>
  \<open>{...voiceContent[i], timing: t, duration: 60}\<close>. When \<open>voiceContent[i]\<close> is undefined
  the object has no \<open>content\<close> and the filter \<open>v => v.content\<close> drops it, as it drops an
  empty content; the model leaves that object out from the start.
\<close>

definition radioVoice :: "VoiceSegment list \<Rightarrow> nat \<Rightarrow> int \<Rightarrow> VoiceSegment list" where
  "radioVoice vs i t =
     (if i < length vs then [(vs ! i)\<lparr>timing := t, duration := 60\<rparr>] else [])"

text \<open>The result is the pair of \<open>voice\<close> and \<open>musicDurations\<close> (pairs of start and duration).\<close>

definition createRadioSegments ::
  "BlockStrategy option \<Rightarrow> VoiceSegment list \<Rightarrow> VoiceSegment list \<times> (int \<times> int) list" where
  "createRadioSegments strat vs =
     (filter (\<lambda>v. content v \<noteq> []) (radioVoice vs 0 780 @ radioVoice vs 1 1740),
      [(0, 780), (840, 900)])"

text \<open>\<open>Math.ceil(duration / 180)\<close>, on integers.\<close>

definition tracksNeeded :: "int \<Rightarrow> nat" where
  "tracksNeeded dur = nat (- ((- dur) div 180))"

text \<open>
  The inner loop of \<open>generateMusicForBlock\<close> over \<open>tracks[i]\<close>, from \<open>currentTime\<close> on;
  it stops at the end of the tracks or when the slot is full.
\<close>

fun fillSlot :: "int \<Rightarrow> int \<Rightarrow> int \<Rightarrow> SpotifyTrack list \<Rightarrow> MusicSegment list" where
  "fillSlot start dur currentTime [] = []"
| "fillSlot start dur currentTime (track # rest) =
     (let trackDuration = min (duration_ms track div 1000) (start + dur - currentTime);
          segment = \<lparr>timing = currentTime, duration = trackDuration,
                     spotifyUri = Some (uri track), playlistId = None, volume = 0.7,
                     fadeIn = Some (if currentTime = start then 2 else 0),
                     fadeOut = Some 1\<rparr>
      in if currentTime + trackDuration \<ge> start + dur then [segment]
         else segment # fillSlot start dur (currentTime + trackDuration) rest)"

text \<open>
  The bound \<open>i < tracksNeeded && i < tracks.length\<close> makes the inner loop run over the
  first \<open>tracksNeeded\<close> tracks.
\<close>

definition generateMusicForBlock ::
  "error + SpotifyTrack list \<Rightarrow> (int \<times> int) list \<Rightarrow> error + MusicSegment list" where
  "generateMusicForBlock fetched durations =
     (case fetched of
        Inl e \<Rightarrow> Inl e
      | Inr tracks \<Rightarrow>
          Inr (concat (map (\<lambda>(start, dur).
                 fillSlot start dur start (take (tracksNeeded dur) tracks)) durations)))"

definition generateRadioBlock :: "Date \<Rightarrow> Date \<Rightarrow> World \<Rightarrow> nat \<Rightarrow> error + AudioBlock" where
  "generateRadioBlock startT endT w blockIndex =
     (case calendar w of
        Inl e \<Rightarrow> Inl e
      | Inr events \<Rightarrow>
     (case analyzeBlock (completion w) (dateNow w) of
        Inl e \<Rightarrow> Inl e
      | Inr a \<Rightarrow>
     (let radioSegments = createRadioSegments (a_strategy a) (a_voiceContent a);
          voiceWithAudio = generateMultipleSpeechSegments (speech w) (fst radioSegments)
      in case a_strategy a of
           None \<Rightarrow> Inl TypeError
         | Some strat \<Rightarrow>
        (case generateMusicForBlock (moodTracks w (musicStyle strat)) (snd radioSegments) of
           Inl e \<Rightarrow> Inl e
         | Inr musicSegments \<Rightarrow>
             Inr \<lparr>block_id = BlockId startT, startTime = startT, endTime = endT,
                  strategy = strat, voiceContent = voiceWithAudio,
                  musicContent = musicSegments, generatedAt = clock w\<rparr>))))"

definition demoTracks :: "string list" where
  "demoTracks =
     [''spotify:track:3n3Ppam7vgaVa1iaRUc9Lp'', ''spotify:track:5HCyWlXZPP0y6Gqq8TgA20'',
      ''spotify:track:0VjIjW4GlUZAMYd2vXMi3b'', ''spotify:track:6DCZcSspjsKoFjzjrWoCdn'']"

definition createFallbackBlock :: "Date \<Rightarrow> Date \<Rightarrow> nat \<Rightarrow> Date \<Rightarrow> AudioBlock" where
  "createFallbackBlock startT endT blockIndex generated =
     \<lparr>block_id = FallbackBlockId startT, startTime = startT, endTime = endT,
      strategy =
        \<lparr>musicStyle = [focus, ambient, energetic, upbeat] ! (blockIndex mod 4),
         musicVolume = 0.7, voiceFrequency = vf_moderate, interruptionLevel = il_low,
         reasoning = ''Demo mode - AI unavailable''\<rparr>,
      voiceContent = [],
      musicContent =
        [\<lparr>timing = 0, duration = 1800,
          spotifyUri = Some (demoTracks ! (blockIndex mod length demoTracks)),
          playlistId = None, volume = 0.7, fadeIn = None, fadeOut = None\<rparr>],
      generatedAt = generated\<rparr>"

text \<open>The two dates that one iteration of the loop computes from \<open>now\<close> and \<open>i\<close>.\<close>

definition blockStartAt :: "Zone \<Rightarrow> Date \<Rightarrow> nat \<Rightarrow> Date" where
  "blockStartAt tz now i =
     (let blockStart = setMinutes3 tz now ((getMinutes tz now div 30) * 30) 0 0
      in setMinutes tz blockStart (getMinutes tz blockStart + int i * BLOCK_DURATION_MINUTES))"

definition blockEndAt :: "Zone \<Rightarrow> Date \<Rightarrow> Date" where
  "blockEndAt tz blockStart =
     setMinutes tz blockStart (getMinutes tz blockStart + BLOCK_DURATION_MINUTES)"

text \<open>The body of the loop: the generated block, or the fallback block when it throws.\<close>

definition blockOrFallback :: "Zone \<Rightarrow> Date \<Rightarrow> World \<Rightarrow> nat \<Rightarrow> AudioBlock" where
  "blockOrFallback tz now w i =
     (let blockStart = blockStartAt tz now i;
          blockEnd = blockEndAt tz blockStart
      in case generateRadioBlock blockStart blockEnd w i of
           Inr block \<Rightarrow> block
         | Inl e \<Rightarrow> createFallbackBlock blockStart blockEnd i (clock w))"

function scheduleLoop ::
  "Zone \<Rightarrow> Date \<Rightarrow> (nat \<Rightarrow> World) \<Rightarrow> nat \<Rightarrow> AudioBlock list \<Rightarrow> AudioBlock list" where
  "scheduleLoop tz now world i blocks =
     (if int i < BLOCKS_TO_GENERATE
      then scheduleLoop tz now world (i + 1) (blocks @ [blockOrFallback tz now (world i) i])
      else blocks)"
  by pat_completeness auto
termination
  by (relation "measure (\<lambda>(tz, now, world, i, blocks). nat BLOCKS_TO_GENERATE - i)") auto

declare scheduleLoop.simps [simp del]

text \<open>\<open>now\<close> is sampled once, before the loop; \<open>world i\<close> answers during iteration \<open>i\<close>.\<close>

definition generateBlockSchedule :: "Zone \<Rightarrow> Date \<Rightarrow> (nat \<Rightarrow> World) \<Rightarrow> AudioBlock list" where
  "generateBlockSchedule tz now world = scheduleLoop tz now world 0 []"

section \<open>Block engine (blockEngine, in src/lib/types.ts)\<close>

text \<open>The loop of \<open>createMusicSegments\<close> over the tracks, from \<open>currentTime\<close> on.\<close>

fun createMusicSegmentsFrom ::
  "int \<Rightarrow> SpotifyTrack list \<Rightarrow> BlockStrategy \<Rightarrow> int \<Rightarrow> MusicSegment list" where
  "createMusicSegmentsFrom currentTime [] strat durationSeconds = []"
| "createMusicSegmentsFrom currentTime (track # rest) strat durationSeconds =
     (if currentTime \<ge> durationSeconds then []
      else
        (let trackDuration = duration_ms track div 1000
         in \<lparr>timing = currentTime, duration = trackDuration,
             spotifyUri = Some (uri track), playlistId = None,
             volume = musicVolume strat,
             fadeIn = Some (if currentTime = 0 then 2 else 0), fadeOut = Some 2\<rparr>
            # createMusicSegmentsFrom (currentTime + trackDuration) rest strat
                durationSeconds))"

definition createMusicSegments ::
  "SpotifyTrack list \<Rightarrow> BlockStrategy \<Rightarrow> int \<Rightarrow> MusicSegment list" where
  "createMusicSegments tracks strat durationSeconds =
     createMusicSegmentsFrom 0 tracks strat durationSeconds"

definition generatePersonalizedMusicSegments ::
  "BlockStrategy \<Rightarrow> World \<Rightarrow> int \<Rightarrow> error + MusicSegment list" where
  "generatePersonalizedMusicSegments strat w durationSeconds =
     (if musicStyle strat = silent then Inr []
      else
        (case personalized w (musicStyle strat) of
           Inl e \<Rightarrow> Inl e
         | Inr tracks \<Rightarrow>
             if length tracks = 0 then
               (case moodTracks w (musicStyle strat) of
                  Inl e \<Rightarrow> Inl e
                | Inr fallbackTracks \<Rightarrow>
                    Inr (createMusicSegments fallbackTracks strat durationSeconds))
             else Inr (createMusicSegments tracks strat durationSeconds)))"

definition generateAudioBlock :: "Date \<Rightarrow> Date \<Rightarrow> World \<Rightarrow> error + AudioBlock" where
  "generateAudioBlock startT endT w =
     (case musicProfile w of
        Inl e \<Rightarrow> Inl e
      | Inr profile \<Rightarrow>
     (case calendar w of
        Inl e \<Rightarrow> Inl e
      | Inr events \<Rightarrow>
     (case analyzeBlock (completion w) (dateNow w) of
        Inl e \<Rightarrow> Inl e
      | Inr a \<Rightarrow>
     (let voiceSegmentsWithAudio =
            generateMultipleSpeechSegments (speech w) (a_voiceContent a)
      in case a_strategy a of
           None \<Rightarrow> Inl TypeError
         | Some strat \<Rightarrow>
        (case generatePersonalizedMusicSegments strat w 3600 of
           Inl e \<Rightarrow> Inl e
         | Inr musicSegments \<Rightarrow>
             Inr \<lparr>block_id = BlockId startT, startTime = startT, endTime = endT,
                  strategy = strat, voiceContent = voiceSegmentsWithAudio,
                  musicContent = musicSegments, generatedAt = clock w\<rparr>)))))"

section \<open>Session store (src/lib/broadcastSession.ts)\<close>

record BroadcastSession =
  session_id :: ident
  session_startTime :: Date
  blocks :: "AudioBlock list"
  voiceFiles :: "(ident \<times> string) list"
  createdAt :: Date
  expiresAt :: Date

text \<open>
  The item of \<open>localStorage\<close> under \<open>SESSION_KEY\<close>, by what \<open>JSON.parse\<close> makes of it:
  \<open>None\<close> when the key is absent, \<open>Unparseable\<close> when parsing (or reading the session's
  fields) throws, otherwise the session that was written with \<open>JSON.stringify\<close>.
\<close>

datatype StoredValue = Unparseable | StoredSession BroadcastSession

definition SESSION_DURATION_HOURS :: int where
  "SESSION_DURATION_HOURS = 12"

text \<open>
  The result is the returned session (\<open>None\<close> for \<open>null\<close>) and the store afterwards.
  \<open>now\<close> is the clock read when the stored session is checked, \<open>now2\<close> the clock read when
  a session is created.
\<close>

definition getOrCreateSession ::
  "Zone \<Rightarrow> StoredValue option \<Rightarrow> Date \<Rightarrow> Date \<Rightarrow> AudioBlock list
     \<Rightarrow> BroadcastSession option \<times> StoredValue option" where
  "getOrCreateSession tz stored now now2 bs =
     (case (case stored of
              Some (StoredSession session) \<Rightarrow>
                if now < expiresAt session then Some session else None
            | Some Unparseable \<Rightarrow> None
            | None \<Rightarrow> None) of
        Some session \<Rightarrow> (Some session, stored)
      | None \<Rightarrow>
          if length bs > 0 then
            (let expires = setHours tz now2 (getHours tz now2 + SESSION_DURATION_HOURS);
                 session = \<lparr>session_id = SessionId now2,
                            session_startTime = startTime (bs ! 0),
                            blocks = bs, voiceFiles = [],
                            createdAt = now2, expiresAt = expires\<rparr>
             in (Some session, Some (StoredSession session)))
          else (None, stored))"

text \<open>The spec's "no stored session is valid": absent, unparseable or expired.\<close>

definition noValidSession :: "StoredValue option \<Rightarrow> Date \<Rightarrow> bool" where
  "noValidSession stored now =
     (case stored of
        None \<Rightarrow> True
      | Some Unparseable \<Rightarrow> True
      | Some (StoredSession session) \<Rightarrow> expiresAt session \<le> now)"

section \<open>Regeneration policy\<close>


text \<open>
  \<open>toLowerCase\<close> and \<open>includes\<close> (here \<open>includes_str\<close>) on strings of ASCII characters.
\<close>

definition lowerChar :: "char \<Rightarrow> char" where
  "lowerChar c =
     (if 65 \<le> (of_char c :: nat) \<and> (of_char c :: nat) \<le> 90
      then char_of ((of_char c :: nat) + 32) else c)"

definition toLowerCase :: "string \<Rightarrow> string" where
  "toLowerCase s = map lowerChar s"

fun includes_str :: "string \<Rightarrow> string \<Rightarrow> bool" where
  "includes_str [] k = (k = [])"
| "includes_str (c # cs) k = (take (length k) (c # cs) = k \<or> includes_str cs k)"

definition mentionsCalendar :: "VoiceSegment \<Rightarrow> bool" where
  "mentionsCalendar v =
     (includes_str (toLowerCase (content v)) ''meeting'' \<or>
      includes_str (toLowerCase (content v)) ''event'' \<or>
      includes_str (toLowerCase (content v)) ''calendar'')"




section \<open>The containment and overlap invariant of a block\<close>

text \<open>Two half-open ranges \<open>[start, end)\<close> intersect.\<close>

definition overlaps :: "SegmentItem \<Rightarrow> SegmentItem \<Rightarrow> bool" where
  "overlaps x y =
     (max (item_startTime x) (item_startTime y) < min (item_endTime x) (item_endTime y))"

fun noOverlap :: "SegmentItem list \<Rightarrow> bool" where
  "noOverlap [] = True"
| "noOverlap (x # xs) = (list_all (\<lambda>y. \<not> overlaps x y) xs \<and> noOverlap xs)"

text \<open>
  No two segments of the merged, sorted sequence intersect, and every segment, so also
  the last one, ends at or before the block's duration.
\<close>

definition validBlock :: "AudioBlock \<Rightarrow> bool" where
  "validBlock block =
     (noOverlap (allSegments block) \<and>
      list_all (\<lambda>item. item_endTime item \<le> blockDuration block) (allSegments block))"



text \<open>The local time of the request, rounded down to a half hour.\<close>

definition alignedLocal :: "Zone \<Rightarrow> Date \<Rightarrow> int" where
  "alignedLocal z now = LocalTime z now - LocalTime z now mod 1800000"


section \<open>Concrete inputs\<close>

definition quietStrategy :: BlockStrategy where
  "quietStrategy =
     \<lparr>musicStyle = calm, musicVolume = 0.5, voiceFrequency = vf_minimal,
      interruptionLevel = il_low, reasoning = ''evening''\<rparr>"

definition helloVoice :: RawVoice where
  "helloVoice =
     \<lparr>rv_timing = 0, rv_content = ''Good evening'', rv_priority = p_medium, rv_duration = 5\<rparr>"

definition exampleTrack :: SpotifyTrack where
  "exampleTrack = \<lparr>uri = ''spotify:track:a'', duration_ms = 200000\<rparr>"

text \<open>A block with silence between its two tracks, from second 100 to second 200.\<close>

definition gapBlock :: AudioBlock where
  "gapBlock =
     (createFallbackBlock 0 1800000 0 0)
       \<lparr>musicContent :=
          [\<lparr>timing = 0, duration = 100, spotifyUri = Some (uri exampleTrack),
            playlistId = None, volume = 0.7, fadeIn = Some 2, fadeOut = Some 1\<rparr>,
           \<lparr>timing = 200, duration = 100, spotifyUri = Some (uri exampleTrack),
            playlistId = None, volume = 0.7, fadeIn = Some 0, fadeOut = Some 1\<rparr>]\<rparr>"

text \<open>A world in which every collaborator answers.\<close>

definition goodWorld :: World where
  "goodWorld =
     \<lparr>calendar = Inr [], musicProfile = Inr (),
      completion = Json \<lparr>r_strategy = Some quietStrategy, r_musicRecommendation = None,
                         r_voiceContent = Some [Some helloVoice]\<rparr>,
      dateNow = (\<lambda>i. 5), speech = (\<lambda>t. Inl UpstreamError),
      moodTracks = (\<lambda>s. Inr [exampleTrack]),
      personalized = (\<lambda>s. Inr [exampleTrack]), clock = 7\<rparr>"

text \<open>A world in which the content-generation request fails.\<close>

definition failingWorld :: World where
  "failingWorld = goodWorld\<lparr>completion := RequestFails\<rparr>"

text \<open>A response whose \<open>voiceContent\<close> array holds \<open>null\<close>.\<close>

definition nullVoiceResult :: AiResult where
  "nullVoiceResult =
     \<lparr>r_strategy = Some quietStrategy, r_musicRecommendation = None,
      r_voiceContent = Some [None]\<rparr>"

text \<open>2026-06-01 13:07 UTC, which is 09:07 in New York.\<close>

definition nineOhSeven :: Date where
  "nineOhSeven = 1780319220000"

text \<open>2026-03-08 06:07 UTC, which is 01:07 in New York, an hour before the clocks go forward.\<close>

definition springNight :: Date where
  "springNight = 1772950020000"

text \<open>2026-11-01 04:40 UTC, which is 00:40 in New York, before the clocks go back.\<close>

definition autumnNight :: Date where
  "autumnNight = 1793508000000"

definition exampleSession :: BroadcastSession where
  "exampleSession =
     \<lparr>session_id = SessionId 0, session_startTime = 0,
      blocks = [createFallbackBlock 0 1800000 0 0], voiceFiles = [],
      createdAt = 0, expiresAt = 43200000\<rparr>"

section \<open>Locator: theorems\<close>

lemma find_isPlaying_allSegments_None:
  "(find (isPlaying e) (allSegments block) = None) =
   (\<not> (\<exists>m \<in> set (musicContent block). timing m \<le> e \<and> e < timing m + duration m) \<and>
    \<not> (\<exists>v \<in> set (voiceContent block). timing v \<le> e \<and> e < timing v + duration v))"
proof -
  have "(find (isPlaying e) (allSegments block) = None) =
        ((\<forall>m \<in> set (musicContent block). \<not> isPlaying e (musicItem m)) \<and>
         (\<forall>v \<in> set (voiceContent block). \<not> isPlaying e (voiceItem v)))"
    by (simp add: find_None_iff allSegments_def) blast
  then show ?thesis
    by (auto simp: isPlaying_def musicItem_def voiceItem_def)
qed

text \<open>
  C1. A block that starts at \<open>T\<close> and ends at \<open>T + 800 s\<close>, with one voice segment
  (timing 0, duration 30) and one music segment (timing 30, duration 770): at \<open>T + 15 s\<close>
  the locator returns the voice segment at position 15, at \<open>T + 100 s\<close> the music segment
  at position 70, and at \<open>T + 900 s\<close> no segment. The other fields of the block and of the
  two segments are arbitrary.
\<close>

theorem locate_scenario:
  "(let v' = v\<lparr>timing := 0, duration := 30\<rparr>;
        m' = m\<lparr>timing := 30, duration := 770\<rparr>;
        block = b\<lparr>startTime := T, endTime := T + 800 * 1000,
                  voiceContent := [v'], musicContent := [m']\<rparr>
    in getCurrentPlaybackPosition block (T + 15 * 1000) =
         \<lparr>currentSegment = Some (VoiceSeg v'), segmentType = Some voice,
          positionInSegment = 15, totalElapsed = 15\<rparr> \<and>
       getCurrentPlaybackPosition block (T + 100 * 1000) =
         \<lparr>currentSegment = Some (MusicSeg m'), segmentType = Some music,
          positionInSegment = 70, totalElapsed = 100\<rparr> \<and>
       notLive (getCurrentPlaybackPosition block (T + 900 * 1000)))"
  by (simp add: getCurrentPlaybackPosition_def elapsedSeconds_def blockDuration_def
      allSegments_def musicItem_def voiceItem_def isPlaying_def notLive_def Let_def)

text \<open>
  C2, as the code has it. Before the block starts the locator returns no segment and
  reports \<open>totalElapsed = 0\<close>, not the negative elapsed time. At or after the end of the
  block, and in a gap between segments inside the block, it returns no segment and
  reports the elapsed seconds.
\<close>

theorem locate_not_live:
  "(elapsedSeconds block now < 0 \<longrightarrow>
      getCurrentPlaybackPosition block now =
        \<lparr>currentSegment = None, segmentType = None, positionInSegment = 0, totalElapsed = 0\<rparr>) \<and>
   (0 \<le> elapsedSeconds block now \<and> blockDuration block \<le> elapsedSeconds block now \<longrightarrow>
      getCurrentPlaybackPosition block now =
        \<lparr>currentSegment = None, segmentType = None, positionInSegment = 0,
         totalElapsed = elapsedSeconds block now\<rparr>) \<and>
   (0 \<le> elapsedSeconds block now \<and> elapsedSeconds block now < blockDuration block \<and>
    \<not> (\<exists>m \<in> set (musicContent block).
          timing m \<le> elapsedSeconds block now \<and>
          elapsedSeconds block now < timing m + duration m) \<and>
    \<not> (\<exists>v \<in> set (voiceContent block).
          timing v \<le> elapsedSeconds block now \<and>
          elapsedSeconds block now < timing v + duration v) \<longrightarrow>
      getCurrentPlaybackPosition block now =
        \<lparr>currentSegment = None, segmentType = None, positionInSegment = 0,
         totalElapsed = elapsedSeconds block now\<rparr>)"
proof -
  have gap: "find (isPlaying (elapsedSeconds block now)) (allSegments block) = None"
    if "\<not> (\<exists>m \<in> set (musicContent block).
          timing m \<le> elapsedSeconds block now \<and>
          elapsedSeconds block now < timing m + duration m)"
       "\<not> (\<exists>v \<in> set (voiceContent block).
          timing v \<le> elapsedSeconds block now \<and>
          elapsedSeconds block now < timing v + duration v)"
    using that by (simp only: find_isPlaying_allSegments_None) simp
  show ?thesis
    using gap by (auto simp: getCurrentPlaybackPosition_def Let_def)
qed

text \<open>
  C2 as stated fails before the start: a block that starts at 00:01:00, asked at 00:00:00,
  has elapsed time \<open>-60\<close> and the locator reports \<open>totalElapsed = 0\<close>.
\<close>

theorem locate_before_start_counterexample:
  "elapsedSeconds (createFallbackBlock 60000 1860000 0 0) 0 < 0 \<and>
   totalElapsed (getCurrentPlaybackPosition (createFallbackBlock 60000 1860000 0 0) 0)
     \<noteq> elapsedSeconds (createFallbackBlock 60000 1860000 0 0) 0"
  by (simp add: getCurrentPlaybackPosition_def elapsedSeconds_def createFallbackBlock_def)

theorem locate_not_live_witness:
  "elapsedSeconds (createFallbackBlock 60000 1860000 0 0) 0 < 0 \<and>
   totalElapsed (getCurrentPlaybackPosition (createFallbackBlock 60000 1860000 0 0) 0) = 0 \<and>
   0 \<le> elapsedSeconds (createFallbackBlock 0 1800000 0 0) 1900000 \<and>
   blockDuration (createFallbackBlock 0 1800000 0 0)
     \<le> elapsedSeconds (createFallbackBlock 0 1800000 0 0) 1900000 \<and>
   totalElapsed (getCurrentPlaybackPosition (createFallbackBlock 0 1800000 0 0) 1900000)
     = 1900 \<and>
   elapsedSeconds gapBlock 150000 < blockDuration gapBlock \<and>
   getCurrentPlaybackPosition gapBlock 150000 =
     \<lparr>currentSegment = None, segmentType = None, positionInSegment = 0,
      totalElapsed = 150\<rparr>"
proof -
  have e: "elapsedSeconds gapBlock 150000 = 150" and d: "blockDuration gapBlock = 1800"
    and m: "musicContent gapBlock =
          [\<lparr>timing = 0, duration = 100, spotifyUri = Some (uri exampleTrack),
            playlistId = None, volume = 0.7, fadeIn = Some 2, fadeOut = Some 1\<rparr>,
           \<lparr>timing = 200, duration = 100, spotifyUri = Some (uri exampleTrack),
            playlistId = None, volume = 0.7, fadeIn = Some 0, fadeOut = Some 1\<rparr>]"
    and v: "voiceContent gapBlock = []"
    by (simp_all add: gapBlock_def elapsedSeconds_def blockDuration_def createFallbackBlock_def)
  have gap: "getCurrentPlaybackPosition gapBlock 150000 =
     \<lparr>currentSegment = None, segmentType = None, positionInSegment = 0,
      totalElapsed = 150\<rparr>"
    using locate_not_live [of gapBlock 150000] by (simp add: e d m v)
  have outside:
    "elapsedSeconds (createFallbackBlock 60000 1860000 0 0) 0 < 0 \<and>
     totalElapsed (getCurrentPlaybackPosition (createFallbackBlock 60000 1860000 0 0) 0) = 0 \<and>
     0 \<le> elapsedSeconds (createFallbackBlock 0 1800000 0 0) 1900000 \<and>
     blockDuration (createFallbackBlock 0 1800000 0 0)
       \<le> elapsedSeconds (createFallbackBlock 0 1800000 0 0) 1900000 \<and>
     totalElapsed (getCurrentPlaybackPosition (createFallbackBlock 0 1800000 0 0) 1900000)
       = 1900"
    using locate_not_live [of "createFallbackBlock 60000 1860000 0 0" 0]
          locate_not_live [of "createFallbackBlock 0 1800000 0 0" 1900000]
    by (simp add: elapsedSeconds_def blockDuration_def createFallbackBlock_def)
  have inside: "elapsedSeconds gapBlock 150000 < blockDuration gapBlock"
    by (simp add: e d)
  from outside inside gap show ?thesis
    by (simp only: simp_thms)
qed

section \<open>Scheduler: theorems\<close>

lemma mod_hour: "(L::int) mod 3600000 = 60000 * ((L div 60000) mod 60) + L mod 60000"
  using zmod_zmult2_eq [of 60 L 60000] by simp

lemma minute_mod_30: "((L::int) div 60000) mod 30 = ((L div 60000) mod 60) mod 30"
  by (simp add: mod_mod_cancel)

lemma mod_half_hour: "(L::int) mod 1800000 = 60000 * ((L div 60000) mod 30) + L mod 60000"
  using zmod_zmult2_eq [of 30 L 60000] by simp

lemma minutes_split_aux: "60000 * (q * 30 + r) = q * 1800000 + 60000 * (r::int)"
  by (simp add: algebra_simps)

lemma minutes_split: "60000 * (M::int) = (M div 30) * 1800000 + 60000 * (M mod 30)"
  using minutes_split_aux [of "M div 30" "M mod 30"] by (simp only: div_mult_mod_eq)

lemma half_hour_of_hour:
  "(L::int) mod 1800000 = L mod 3600000 - ((L div 60000) mod 60 div 30) * 1800000"
  using mod_hour [of L] mod_half_hour [of L] minute_mod_30 [of L]
    minutes_split [of "(L div 60000) mod 60"]
  by linarith

lemma LocalTime_fixed: "LocalTime (fixedZone c) t = t + c"
  by (simp add: LocalTime_def fixedZone_def)

lemma UTC_fixed: "UTC (fixedZone c) lt = lt - c"
  by (simp add: UTC_def fixedZone_def)

lemma setMinutes3_aligned:
  "setMinutes3 tz now ((getMinutes tz now div 30) * 30) 0 0 = UTC tz (alignedLocal tz now)"
proof -
  have a: "setMinutes3 tz now m 0 0 =
      UTC tz (LocalTime tz now - LocalTime tz now mod 3600000 + m * 60000)" for m
    by (simp add: setMinutes3_def)
  have b: "LocalTime tz now - LocalTime tz now mod 3600000 +
          LocalTime tz now div 60000 mod 60 div 30 * 30 * 60000 =
        LocalTime tz now - LocalTime tz now mod 1800000"
    using half_hour_of_hour [of "LocalTime tz now"] by linarith
  show ?thesis
    by (simp only: a getMinutes_def alignedLocal_def b)
qed

lemma setMinutes_plus:
  "setMinutes tz d (getMinutes tz d + m) = UTC tz (LocalTime tz d + m * 60000)"
  by (simp add: setMinutes_def)

lemma blockStartAt_eq:
  "blockStartAt tz now i =
     UTC tz (LocalTime tz (UTC tz (alignedLocal tz now)) + int i * 1800000)"
  unfolding blockStartAt_def Let_def setMinutes3_aligned setMinutes_plus
  by (simp add: BLOCK_DURATION_MINUTES_def mult.commute)

lemma blockEndAt_eq: "blockEndAt tz s = UTC tz (LocalTime tz s + 1800000)"
  unfolding blockEndAt_def setMinutes_plus by (simp add: BLOCK_DURATION_MINUTES_def)

lemma blockStartAt_fixed:
  "blockStartAt (fixedZone c) now i = now - (now + c) mod 1800000 + int i * 1800000"
  by (simp add: blockStartAt_eq LocalTime_fixed UTC_fixed alignedLocal_def)

lemma blockEndAt_fixed: "blockEndAt (fixedZone c) s = s + 1800000"
  by (simp add: blockEndAt_eq LocalTime_fixed UTC_fixed)

lemma scheduleLoop_eq:
  "i \<le> 24 \<Longrightarrow> scheduleLoop tz now world i bs =
     bs @ map (\<lambda>j. blockOrFallback tz now (world j) j) [i..<24]"
proof (induction tz now world i bs rule: scheduleLoop.induct)
  case (1 tz now world i blocks)
  have n: "(int i < BLOCKS_TO_GENERATE) = (i < 24)"
    by (simp add: BLOCKS_TO_GENERATE_def PRELOAD_HOURS_def BLOCK_DURATION_MINUTES_def)
  show ?case
  proof (cases "i < 24")
    case True
    then have "scheduleLoop tz now world i blocks =
      scheduleLoop tz now world (i + 1) (blocks @ [blockOrFallback tz now (world i) i])"
      by (subst scheduleLoop.simps) (simp add: n)
    also have "\<dots> = (blocks @ [blockOrFallback tz now (world i) i]) @
        map (\<lambda>j. blockOrFallback tz now (world j) j) [i + 1..<24]"
      using True by (intro "1.IH") (simp_all add: n)
    also have "\<dots> = blocks @ map (\<lambda>j. blockOrFallback tz now (world j) j) [i..<24]"
      using True by (simp add: upt_conv_Cons)
    finally show ?thesis .
  next
    case False
    with "1.prems" have i: "i = 24" by simp
    have "scheduleLoop tz now world i blocks = blocks"
      using False by (subst scheduleLoop.simps) (simp add: n)
    then show ?thesis
      by (simp add: i)
  qed
qed

lemma generateBlockSchedule_eq:
  "generateBlockSchedule tz now world =
     map (\<lambda>j. blockOrFallback tz now (world j) j) [0..<24]"
proof -
  have "(0::nat) \<le> 24" by simp
  then have "scheduleLoop tz now world 0 [] =
     [] @ map (\<lambda>j. blockOrFallback tz now (world j) j) [0..<24]"
    by (rule scheduleLoop_eq)
  then show ?thesis
    by (simp only: generateBlockSchedule_def append_Nil)
qed

lemma schedule_length: "length (generateBlockSchedule tz now world) = 24"
  by (simp only: generateBlockSchedule_eq length_map length_upt)

lemma schedule_nth:
  assumes "i < 24"
  shows "generateBlockSchedule tz now world ! i = blockOrFallback tz now (world i) i"
proof -
  from assms have l: "i < length [0..<24::nat]"
    by simp
  from assms have u: "[0..<24::nat] ! i = i"
    by simp
  show ?thesis
    by (simp only: generateBlockSchedule_eq nth_map [OF l] u)
qed


lemma generateRadioBlock_times:
  "generateRadioBlock startT endT w i = Inr block \<Longrightarrow>
     startTime block = startT \<and> endTime block = endT"
  by (auto simp: generateRadioBlock_def Let_def split: sum.splits option.splits)

lemma blockOrFallback_times:
  "startTime (blockOrFallback tz now w i) = blockStartAt tz now i \<and>
   endTime (blockOrFallback tz now w i) = blockEndAt tz (blockStartAt tz now i)"
proof (cases "generateRadioBlock (blockStartAt tz now i)
                (blockEndAt tz (blockStartAt tz now i)) w i")
  case (Inl e)
  then show ?thesis
    by (simp add: blockOrFallback_def Let_def createFallbackBlock_def)
next
  case (Inr block)
  from generateRadioBlock_times [OF Inr] show ?thesis
    using Inr by (simp add: blockOrFallback_def Let_def)
qed

lemma schedule_times:
  assumes "i < 24"
  shows "startTime (generateBlockSchedule tz now world ! i) = blockStartAt tz now i"
    and "endTime (generateBlockSchedule tz now world ! i) =
           blockEndAt tz (blockStartAt tz now i)"
  using assms by (simp_all add: schedule_nth blockOrFallback_times)

text \<open>
  In a zone without transitions the schedule is contiguous: every block ends 30
  minutes after it starts, where the next one starts.
\<close>

lemma schedule_contiguous_without_transitions:
  "length (generateBlockSchedule (fixedZone c) now world) = 24 \<and>
   (\<forall>i. Suc i < 24 \<longrightarrow>
      endTime (generateBlockSchedule (fixedZone c) now world ! i) =
      startTime (generateBlockSchedule (fixedZone c) now world ! Suc i) \<and>
      endTime (generateBlockSchedule (fixedZone c) now world ! i) =
      startTime (generateBlockSchedule (fixedZone c) now world ! i) + 1800000)"
proof -
  have "endTime (generateBlockSchedule (fixedZone c) now world ! i) =
      startTime (generateBlockSchedule (fixedZone c) now world ! Suc i) \<and>
      endTime (generateBlockSchedule (fixedZone c) now world ! i) =
      startTime (generateBlockSchedule (fixedZone c) now world ! i) + 1800000"
    if "Suc i < 24" for i
  proof -
    from that have "i < 24" by simp
    with that show ?thesis
      by (simp add: schedule_times blockStartAt_fixed blockEndAt_fixed)
  qed
  then show ?thesis
    using schedule_length [of "fixedZone c" now world] by blast
qed

lemma spring_starts:
  "blockStartAt newYork2026 springNight 2 = 1772953200000"
  "blockStartAt newYork2026 springNight 3 = 1772955000000"
  "blockStartAt newYork2026 springNight 4 = 1772953200000"
  "blockStartAt newYork2026 springNight 5 = 1772955000000"
  by (simp_all add: blockStartAt_eq alignedLocal_def LocalTime_def UTC_def newYork2026_def
      springForward_def fallBack_def springNight_def)

lemma spring_ends:
  "blockEndAt newYork2026 1772953200000 = 1772955000000"
  "blockEndAt newYork2026 1772955000000 = 1772956800000"
  by (simp_all add: blockEndAt_eq LocalTime_def UTC_def newYork2026_def
      springForward_def fallBack_def)

text \<open>
  C4. The claim fails on the code where the clocks go forward. New York, 2026-03-08,
  asked at 01:07 local time: the schedule has its 24 blocks, but the local times 02:00
  and 02:30 of blocks 2 and 3 do not exist and are read as 03:00 and 03:30, which are
  also the starts of blocks 4 and 5. Block 3 ends at 08:00 UTC and block 4 starts at
  07:00 UTC.
\<close>

theorem schedule_repeats_at_spring_forward:
  "length (generateBlockSchedule newYork2026 springNight world) = 24 \<and>
   startTime (generateBlockSchedule newYork2026 springNight world ! 2) = 1772953200000 \<and>
   startTime (generateBlockSchedule newYork2026 springNight world ! 3) = 1772955000000 \<and>
   endTime (generateBlockSchedule newYork2026 springNight world ! 3) = 1772956800000 \<and>
   startTime (generateBlockSchedule newYork2026 springNight world ! 4) = 1772953200000 \<and>
   startTime (generateBlockSchedule newYork2026 springNight world ! 5) = 1772955000000 \<and>
   endTime (generateBlockSchedule newYork2026 springNight world ! 3) \<noteq>
   startTime (generateBlockSchedule newYork2026 springNight world ! 4)"
proof -
  have "(2::nat) < 24" "(3::nat) < 24" "(4::nat) < 24" "(5::nat) < 24"
    by simp_all
  then show ?thesis
    by (simp add: schedule_length schedule_times spring_starts spring_ends)
qed







section \<open>Block layout: theorems\<close>















lemma fallback_valid:
  "1800 \<le> (endT - startT) div 1000 \<Longrightarrow> validBlock (createFallbackBlock startT endT i g)"
  by (simp add: validBlock_def allSegments_def createFallbackBlock_def musicItem_def
      blockDuration_def)







text \<open>
  When the generation of every block throws, the schedule still has 24 blocks, each one
  the fallback block of its index: no voice and one music segment at timing 0 of 1800
  seconds; the invariant holds for a block of at least 1800 seconds.
\<close>

lemma all_fallback_when_generation_throws:
  assumes "\<forall>i<24. isl (generateRadioBlock (blockStartAt tz now i)
                          (blockEndAt tz (blockStartAt tz now i)) (world i) i)"
  shows "length (generateBlockSchedule tz now world) = 24 \<and>
         (\<forall>i<24.
            generateBlockSchedule tz now world ! i =
              createFallbackBlock (blockStartAt tz now i)
                (blockEndAt tz (blockStartAt tz now i)) i (clock (world i)) \<and>
            voiceContent (generateBlockSchedule tz now world ! i) = [] \<and>
            map timing (musicContent (generateBlockSchedule tz now world ! i)) = [0] \<and>
            map duration (musicContent (generateBlockSchedule tz now world ! i)) = [1800] \<and>
            (1800 \<le> blockDuration (generateBlockSchedule tz now world ! i) \<longrightarrow>
               validBlock (generateBlockSchedule tz now world ! i)))"
proof -
  have one: "generateBlockSchedule tz now world ! i =
              createFallbackBlock (blockStartAt tz now i)
                (blockEndAt tz (blockStartAt tz now i)) i (clock (world i))"
    if "i < 24" for i
  proof -
    from assms that have "isl (generateRadioBlock (blockStartAt tz now i)
                          (blockEndAt tz (blockStartAt tz now i)) (world i) i)"
      by simp
    then obtain e where "generateRadioBlock (blockStartAt tz now i)
                          (blockEndAt tz (blockStartAt tz now i)) (world i) i = Inl e"
      by (auto simp: isl_def)
    then have "blockOrFallback tz now (world i) i =
              createFallbackBlock (blockStartAt tz now i)
                (blockEndAt tz (blockStartAt tz now i)) i (clock (world i))"
      by (simp add: blockOrFallback_def Let_def)
    with that show ?thesis
      by (simp add: schedule_nth)
  qed
  have shape: "voiceContent (createFallbackBlock s e i g) = [] \<and>
      map timing (musicContent (createFallbackBlock s e i g)) = [0] \<and>
      map duration (musicContent (createFallbackBlock s e i g)) = [1800] \<and>
      (1800 \<le> blockDuration (createFallbackBlock s e i g) \<longrightarrow>
         validBlock (createFallbackBlock s e i g))" for s e i g
    using fallback_valid [of e s i g]
    by (simp add: createFallbackBlock_def blockDuration_def)
  show ?thesis
    using one shape by (simp add: schedule_length)
qed

lemma autumn_block_2:
  "blockStartAt newYork2026 autumnNight 2 = 1793511000000"
  "blockEndAt newYork2026 1793511000000 = 1793516400000"
  by (simp_all add: blockStartAt_eq blockEndAt_eq alignedLocal_def LocalTime_def UTC_def
      newYork2026_def springForward_def fallBack_def autumnNight_def)

text \<open>
  C6. The claim fails on the code where the clocks go back. New York, 2026-11-01, asked
  at 00:40 local time, with the content generation failing for every block: the
  schedule has its 24 fallback blocks, but block 2 starts at 01:30 local time (05:30
  UTC) and ends at 02:00 local time read after the transition (07:00 UTC); it lasts 5400
  seconds and its one music segment covers the first 1800 of them.
\<close>

theorem fallback_block_short_at_fall_back:
  "length (generateBlockSchedule newYork2026 autumnNight (\<lambda>i. failingWorld)) = 24 \<and>
   generateBlockSchedule newYork2026 autumnNight (\<lambda>i. failingWorld) ! 2 =
     createFallbackBlock 1793511000000 1793516400000 2 7 \<and>
   voiceContent (generateBlockSchedule newYork2026 autumnNight (\<lambda>i. failingWorld) ! 2) = [] \<and>
   map timing (musicContent
     (generateBlockSchedule newYork2026 autumnNight (\<lambda>i. failingWorld) ! 2)) = [0] \<and>
   map duration (musicContent
     (generateBlockSchedule newYork2026 autumnNight (\<lambda>i. failingWorld) ! 2)) = [1800] \<and>
   blockDuration (generateBlockSchedule newYork2026 autumnNight (\<lambda>i. failingWorld) ! 2) = 5400"
proof -
  have fails: "\<forall>i<24. isl (generateRadioBlock (blockStartAt newYork2026 autumnNight i)
                 (blockEndAt newYork2026 (blockStartAt newYork2026 autumnNight i))
                 failingWorld i)"
    by (simp add: generateRadioBlock_def failingWorld_def goodWorld_def analyzeBlock_def)
  have clock: "clock failingWorld = 7"
    by (simp add: failingWorld_def goodWorld_def)
  have two: "(2::nat) < 24"
    by simp
  from all_fallback_when_generation_throws
         [of newYork2026 autumnNight "\<lambda>i. failingWorld", OF fails] two
  have at2: "generateBlockSchedule newYork2026 autumnNight (\<lambda>i. failingWorld) ! 2 =
              createFallbackBlock (blockStartAt newYork2026 autumnNight 2)
                (blockEndAt newYork2026 (blockStartAt newYork2026 autumnNight 2)) 2
                (clock failingWorld)"
    by blast
  have at2': "generateBlockSchedule newYork2026 autumnNight (\<lambda>i. failingWorld) ! 2 =
     createFallbackBlock 1793511000000 1793516400000 2 7"
    unfolding at2 by (simp only: autumn_block_2 clock)
  show ?thesis
    unfolding at2' by (simp add: schedule_length createFallbackBlock_def blockDuration_def)
qed

section \<open>Content strategy resolver: theorems\<close>

lemma analyzeBlock_ids:
  "map voice_id (map (addId now) (enumerate n segments)) =
     map (\<lambda>i. VoiceId (now i) i) [n..<n + length segments]"
proof -
  have h: "voice_id \<circ> addId now = (\<lambda>i. VoiceId (now i) i) \<circ> fst"
    by (auto simp: addId_def fun_eq_iff)
  have "map voice_id (map (addId now) (enumerate n segments)) =
        map (voice_id \<circ> addId now) (enumerate n segments)"
    by simp
  also have "\<dots> = map ((\<lambda>i. VoiceId (now i) i) \<circ> fst) (enumerate n segments)"
    by (simp only: h)
  also have "\<dots> = map (\<lambda>i. VoiceId (now i) i) (map fst (enumerate n segments))"
    by (simp only: map_map)
  also have "\<dots> = map (\<lambda>i. VoiceId (now i) i) [n..<n + length segments]"
    by (simp only: map_fst_enumerate)
  finally show ?thesis .
qed

lemma analyzeBlock_fields:
  "map content (map (addId now) (enumerate n segments)) = map rv_content segments \<and>
   map timing (map (addId now) (enumerate n segments)) = map rv_timing segments \<and>
   map duration (map (addId now) (enumerate n segments)) = map rv_duration segments"
  by (induction segments arbitrary: n) (simp_all add: addId_def)

lemma those_None_iff: "(those xs = None) = (None \<in> set xs)"
  by (induction xs) (auto split: option.splits)

lemma those_map_Some: "those (map Some xs) = Some xs"
  by (induction xs) simp_all

lemma those_Some_map: "None \<notin> set xs \<Longrightarrow> xs = map Some (map the xs)"
  by (induction xs) auto

text \<open>
  C7, as the code has it. \<open>analyzeBlock\<close> has no local recovery and no fallback
  strategy: a failed request, content that is not JSON, a result without a
  \<open>voiceContent\<close> array and an array that holds \<open>null\<close> each make it throw to its
  caller. It returns exactly when the response parses and has an array without
  \<open>null\<close>; then the strategy is the parsed one and voice segment \<open>i\<close> gets the id
  \<open>voice-<now>-<i>\<close> and the content, timing and duration of element \<open>i\<close>. The
  failure surfaces in both callers, and it is the scheduler's loop that recovers, with
  the fallback block of that index.
\<close>

theorem analyzeBlock_throws_to_caller:
  "analyzeBlock RequestFails now = Inl UpstreamError \<and>
   analyzeBlock NotJson now = Inl SyntaxError \<and>
   (r_voiceContent result = None \<longrightarrow> analyzeBlock (Json result) now = Inl TypeError) \<and>
   (r_voiceContent result = Some elements \<and> None \<in> set elements \<longrightarrow>
      analyzeBlock (Json result) now = Inl TypeError) \<and>
   (r_voiceContent result = Some elements \<and> None \<notin> set elements \<longrightarrow>
      \<not> isl (analyzeBlock (Json result) now)) \<and>
   (r_voiceContent result = Some (map Some segments) \<longrightarrow>
      \<not> isl (analyzeBlock (Json result) now) \<and>
      a_strategy (projr (analyzeBlock (Json result) now)) = r_strategy result \<and>
      map voice_id (a_voiceContent (projr (analyzeBlock (Json result) now))) =
        map (\<lambda>i. VoiceId (now i) i) [0..<length segments] \<and>
      map content (a_voiceContent (projr (analyzeBlock (Json result) now))) =
        map rv_content segments \<and>
      map timing (a_voiceContent (projr (analyzeBlock (Json result) now))) =
        map rv_timing segments \<and>
      map duration (a_voiceContent (projr (analyzeBlock (Json result) now))) =
        map rv_duration segments) \<and>
   (isl (analyzeBlock (completion w) (dateNow w)) \<longrightarrow>
      isl (generateRadioBlock startT endT w i) \<and>
      isl (generateAudioBlock startT endT w) \<and>
      blockOrFallback tz t w i =
        createFallbackBlock (blockStartAt tz t i) (blockEndAt tz (blockStartAt tz t i)) i
          (clock w))"
proof -
  have null: "analyzeBlock (Json result) now = Inl TypeError"
    if "r_voiceContent result = Some elements" "None \<in> set elements"
  proof -
    from that(2) have "those elements = None"
      by (simp add: those_None_iff)
    with that(1) show ?thesis
      by (simp add: analyzeBlock_def)
  qed
  have ok: "\<not> isl (analyzeBlock (Json result) now) \<and>
      a_strategy (projr (analyzeBlock (Json result) now)) = r_strategy result \<and>
      a_voiceContent (projr (analyzeBlock (Json result) now)) =
        map (addId now) (enumerate 0 segs)"
    if "r_voiceContent result = Some (map Some segs)" for segs
    using that by (simp add: analyzeBlock_def those_map_Some)
  have full: "\<not> isl (analyzeBlock (Json result) now)"
    if "r_voiceContent result = Some elements" "None \<notin> set elements"
  proof -
    from that have "r_voiceContent result = Some (map Some (map the elements))"
      using those_Some_map [of elements] by simp
    from ok [OF this] show ?thesis
      by simp
  qed
  have up: "isl (generateRadioBlock startT endT w i) \<and> isl (generateAudioBlock startT endT w)"
    if "isl (analyzeBlock (completion w) (dateNow w))" for startT endT
    using that
    by (auto simp: generateRadioBlock_def generateAudioBlock_def isl_def split: sum.splits)
  have fb: "blockOrFallback tz t w i =
        createFallbackBlock (blockStartAt tz t i) (blockEndAt tz (blockStartAt tz t i)) i
          (clock w)"
    if "isl (analyzeBlock (completion w) (dateNow w))"
  proof -
    from up [OF that] obtain e where
      "generateRadioBlock (blockStartAt tz t i) (blockEndAt tz (blockStartAt tz t i)) w i = Inl e"
      by (auto simp: isl_def)
    then show ?thesis
      by (simp add: blockOrFallback_def Let_def)
  qed
  have first: "analyzeBlock RequestFails now = Inl UpstreamError \<and>
   analyzeBlock NotJson now = Inl SyntaxError \<and>
   (r_voiceContent result = None \<longrightarrow> analyzeBlock (Json result) now = Inl TypeError)"
    by (simp add: analyzeBlock_def)
  have parsed: "r_voiceContent result = Some (map Some segments) \<longrightarrow>
      \<not> isl (analyzeBlock (Json result) now) \<and>
      a_strategy (projr (analyzeBlock (Json result) now)) = r_strategy result \<and>
      map voice_id (a_voiceContent (projr (analyzeBlock (Json result) now))) =
        map (\<lambda>i. VoiceId (now i) i) [0..<length segments] \<and>
      map content (a_voiceContent (projr (analyzeBlock (Json result) now))) =
        map rv_content segments \<and>
      map timing (a_voiceContent (projr (analyzeBlock (Json result) now))) =
        map rv_timing segments \<and>
      map duration (a_voiceContent (projr (analyzeBlock (Json result) now))) =
        map rv_duration segments"
    using ok [of segments] analyzeBlock_ids [of now 0 segments]
      analyzeBlock_fields [of now 0 segments]
    by simp
  from first null full parsed up fb show ?thesis
    by blast
qed

theorem analyzeBlock_throws_to_caller_witness:
  "analyzeBlock (Json \<lparr>r_strategy = None, r_musicRecommendation = None,
                       r_voiceContent = None\<rparr>) (\<lambda>i. 0) = Inl TypeError \<and>
   analyzeBlock (Json nullVoiceResult) (\<lambda>i. 0) = Inl TypeError \<and>
   \<not> isl (analyzeBlock (completion goodWorld) (dateNow goodWorld)) \<and>
   map voice_id (a_voiceContent (projr (analyzeBlock (completion goodWorld) (dateNow goodWorld))))
     = [VoiceId 5 0] \<and>
   isl (generateAudioBlock 0 3600000 failingWorld) \<and>
   blockOrFallback newYork2026 nineOhSeven failingWorld 0 =
     createFallbackBlock (blockStartAt newYork2026 nineOhSeven 0)
       (blockEndAt newYork2026 (blockStartAt newYork2026 nineOhSeven 0)) 0 7"
proof -
  have none: "r_voiceContent \<lparr>r_strategy = None, r_musicRecommendation = None,
                       r_voiceContent = None\<rparr> = None"
    by simp
  have null: "r_voiceContent nullVoiceResult = Some [None] \<and> None \<in> set [None :: RawVoice option]"
    by (simp add: nullVoiceResult_def)
  have some: "r_voiceContent \<lparr>r_strategy = Some quietStrategy, r_musicRecommendation = None,
                r_voiceContent = Some [Some helloVoice]\<rparr> = Some (map Some [helloVoice]) \<and>
              r_voiceContent \<lparr>r_strategy = Some quietStrategy, r_musicRecommendation = None,
                r_voiceContent = Some [Some helloVoice]\<rparr> = Some [Some helloVoice] \<and>
              None \<notin> set [Some helloVoice]"
    by simp
  have fails: "isl (analyzeBlock (completion failingWorld) (dateNow failingWorld))"
    by (simp add: failingWorld_def goodWorld_def analyzeBlock_def)
  have good: "completion goodWorld = Json \<lparr>r_strategy = Some quietStrategy,
      r_musicRecommendation = None, r_voiceContent = Some [Some helloVoice]\<rparr>"
    "dateNow goodWorld = (\<lambda>i. 5)" "clock failingWorld = 7"
    by (simp_all add: goodWorld_def failingWorld_def)
  from analyzeBlock_throws_to_caller [where result = "\<lparr>r_strategy = None,
      r_musicRecommendation = None, r_voiceContent = None\<rparr>" and now = "\<lambda>i. 0"
      and w = failingWorld and startT = 0 and endT = 3600000 and tz = newYork2026
      and t = nineOhSeven and i = 0] none fails
  have a: "analyzeBlock (Json \<lparr>r_strategy = None, r_musicRecommendation = None,
                       r_voiceContent = None\<rparr>) (\<lambda>i. 0) = Inl TypeError"
    and b: "isl (generateAudioBlock 0 3600000 failingWorld)"
    and c: "blockOrFallback newYork2026 nineOhSeven failingWorld 0 =
     createFallbackBlock (blockStartAt newYork2026 nineOhSeven 0)
       (blockEndAt newYork2026 (blockStartAt newYork2026 nineOhSeven 0)) 0
       (clock failingWorld)"
    by blast+
  from analyzeBlock_throws_to_caller [where result = nullVoiceResult and now = "\<lambda>i. 0"
      and elements = "[None]"] null
  have n: "analyzeBlock (Json nullVoiceResult) (\<lambda>i. 0) = Inl TypeError"
    by blast
  from analyzeBlock_throws_to_caller [where result = "\<lparr>r_strategy = Some quietStrategy,
      r_musicRecommendation = None, r_voiceContent = Some [Some helloVoice]\<rparr>"
      and now = "\<lambda>i. 5" and segments = "[helloVoice]" and elements = "[Some helloVoice]"] some
  have d: "\<not> isl (analyzeBlock (completion goodWorld) (dateNow goodWorld))"
    and e: "map voice_id (a_voiceContent (projr (analyzeBlock (completion goodWorld)
              (dateNow goodWorld)))) = map (\<lambda>i. VoiceId 5 i) [0..<length [helloVoice]]"
    unfolding good by blast+
  from a b c d e n show ?thesis
    by (simp add: good)
qed

text \<open>
  C7 as stated fails: with a failed request, with content that is not JSON, or with a
  \<open>voiceContent\<close> array that holds \<open>null\<close>, \<open>analyzeBlock\<close> does not return a
  strategy, it throws.
\<close>

theorem analyzeBlock_failure_counterexample:
  "analyzeBlock RequestFails (\<lambda>i. 0) = Inl UpstreamError \<and>
   analyzeBlock NotJson (\<lambda>i. 0) = Inl SyntaxError \<and>
   analyzeBlock (Json nullVoiceResult) (\<lambda>i. 0) = Inl TypeError"
  by (simp add: analyzeBlock_def nullVoiceResult_def)

section \<open>Session store and regeneration policy: theorems\<close>

text \<open>
  C8. While the stored session is valid (\<open>now < expiresAt\<close>), \<open>getOrCreateSession\<close>
  returns it and leaves the store as it is, whatever blocks are passed; so a second call
  that is still before the expiry returns the same session, with the same identifier.
\<close>

theorem getOrCreateSession_idempotent:
  assumes "now < expiresAt session" and "now' < expiresAt session"
  shows "getOrCreateSession tz (Some (StoredSession session)) now c bs =
           (Some session, Some (StoredSession session)) \<and>
         getOrCreateSession tz
           (snd (getOrCreateSession tz (Some (StoredSession session)) now c bs)) now' c' bs' =
           (Some session, Some (StoredSession session)) \<and>
         map_option session_id
           (fst (getOrCreateSession tz (Some (StoredSession session)) now c bs)) =
         map_option session_id
           (fst (getOrCreateSession tz
             (snd (getOrCreateSession tz (Some (StoredSession session)) now c bs))
             now' c' bs'))"
  using assms by (simp add: getOrCreateSession_def)

theorem getOrCreateSession_idempotent_witness:
  "getOrCreateSession newYork2026 (Some (StoredSession exampleSession)) 1000 1001 [] =
     (Some exampleSession, Some (StoredSession exampleSession)) \<and>
   getOrCreateSession newYork2026
     (snd (getOrCreateSession newYork2026 (Some (StoredSession exampleSession)) 1000 1001 []))
     2000 2001 [createFallbackBlock 0 1800000 0 0] =
     (Some exampleSession, Some (StoredSession exampleSession))"
proof -
  have "(1000::int) < expiresAt exampleSession" and "(2000::int) < expiresAt exampleSession"
    by (simp_all add: exampleSession_def)
  from getOrCreateSession_idempotent [OF this, of newYork2026 1001 "[]" 2001
      "[createFallbackBlock 0 1800000 0 0]"]
  show ?thesis by blast
qed

lemma mentionsCalendar_examples:
  "mentionsCalendar \<lparr>timing = 0, duration = 5, voice_id = LiteralId ''x'',
     content = ''Team MEETING at 3'', audioUrl = None, priority = p_low\<rparr>"
  "\<not> mentionsCalendar \<lparr>timing = 0, duration = 5, voice_id = LiteralId ''x'',
     content = ''Good evening'', audioUrl = None, priority = p_low\<rparr>"
  by code_simp+




text \<open>
  C10. When no stored session is valid (absent, unparseable or expired) and the blocks
  argument is empty, \<open>getOrCreateSession\<close> returns \<open>null\<close> and leaves the store as it
  is.
\<close>

theorem getOrCreateSession_null_on_empty:
  assumes "noValidSession stored now"
  shows "getOrCreateSession tz stored now now2 [] = (None, stored)"
  using assms
  by (auto simp: noValidSession_def getOrCreateSession_def split: option.splits StoredValue.splits)

theorem getOrCreateSession_null_on_empty_witness:
  "getOrCreateSession newYork2026 None 1000 1001 [] = (None, None) \<and>
   getOrCreateSession newYork2026 (Some Unparseable) 1000 1001 [] = (None, Some Unparseable) \<and>
   getOrCreateSession newYork2026 (Some (StoredSession exampleSession)) 43200000 43200001 [] =
     (None, Some (StoredSession exampleSession))"
proof -
  have a: "noValidSession None 1000" and b: "noValidSession (Some Unparseable) 1000"
    and c: "noValidSession (Some (StoredSession exampleSession)) 43200000"
    by (simp_all add: noValidSession_def exampleSession_def)
  from getOrCreateSession_null_on_empty [OF a, of newYork2026 1001]
       getOrCreateSession_null_on_empty [OF b, of newYork2026 1001]
       getOrCreateSession_null_on_empty [OF c, of newYork2026 43200001]
  show ?thesis by blast
qed

end
